theory Spec2Isabelle
  imports Main "HOL-Library.Word" "HOL-Library.Product_Lexorder"
begin

section \<open>The clock of the JavaScript runtime\<close>

text \<open>
  \<^verbatim>\<open>new Date()\<close> reads the runtime's clock. The reading is a time value (milliseconds
  since the epoch, UTC) together with the offset of the machine's local zone at that
  instant; \<^verbatim>\<open>getHours()\<close> and \<^verbatim>\<open>getMinutes()\<close> are ECMAScript's
  HourFromTime and MinFromTime of the local time \<open>t + LocalTZA\<close>. The clock is the
  only input of \<^verbatim>\<open>isDuringPrayerTime\<close>, so the model passes the reading explicitly.
\<close>

record Date =
  timeValue :: int
  localTZA :: int

definition getHours :: "Date \<Rightarrow> int" where
  "getHours d = ((timeValue d + localTZA d) div 3600000) mod 24"

definition getMinutes :: "Date \<Rightarrow> int" where
  "getMinutes d = ((timeValue d + localTZA d) div 60000) mod 60"

section \<open>lib/utils.ts: the prayer-time check\<close>

text \<open>
  \<^verbatim>\<open>const currentTime = currentHour * 60 + currentMinute\<close>
\<close>

definition currentTime :: "Date \<Rightarrow> int" where
  "currentTime now = getHours now * 60 + getMinutes now"

text \<open>
  The object literal \<^verbatim>\<open>prayerTimes\<close> of \<^verbatim>\<open>isDuringPrayerTime\<close>, in insertion order
  (the order \<^verbatim>\<open>Object.values\<close> enumerates).
\<close>

definition prayerTimes :: "(string \<times> int) list" where
  "prayerTimes =
     [(''fajr'', 5 * 60 + 15),
      (''dhuhr'', 12 * 60 + 15),
      (''asr'', 15 * 60 + 30),
      (''maghrib'', 18 * 60 + 45),
      (''isha'', 20 * 60 + 0)]"

definition buffer :: int where
  "buffer = 15"

text \<open>
  The arrow function handed to \<^verbatim>\<open>some\<close>:
  \<^verbatim>\<open>prayerTime => Math.abs(currentTime - prayerTime) <= buffer\<close>.
\<close>

definition withinBuffer :: "int \<Rightarrow> int \<Rightarrow> bool" where
  "withinBuffer ct prayerTime = (\<bar>ct - prayerTime\<bar> \<le> buffer)"

text \<open>
  \<^verbatim>\<open>isDuringPrayerTime()\<close> takes no argument; \<open>now\<close> is what its
  \<^verbatim>\<open>new Date()\<close> returns.
\<close>

definition isDuringPrayerTime :: "Date \<Rightarrow> bool" where
  "isDuringPrayerTime now = list_ex (withinBuffer (currentTime now)) (map snd prayerTimes)"

text \<open>The exported table \<^verbatim>\<open>mockPrayerTimes\<close> of the test set-up (strings, six entries).\<close>

definition mockPrayerTimes :: "(string \<times> string) list" where
  "mockPrayerTimes =
     [(''fajr'', ''05:15''),
      (''sunrise'', ''06:35''),
      (''dhuhr'', ''12:15''),
      (''asr'', ''15:30''),
      (''maghrib'', ''18:45''),
      (''isha'', ''20:00'')]"

section \<open>components/layout/header.tsx: the polling timer\<close>

text \<open>
  The \<^verbatim>\<open>setInterval\<close> callback of \<^verbatim>\<open>Header\<close> runs once a second. It reads the
  clock itself (\<open>now\<close>) and calls \<^verbatim>\<open>isDuringPrayerTime()\<close>, which reads the clock
  again (\<open>now'\<close>); the two component states it sets are the only ones it touches.
\<close>

datatype Language = en | ar

datatype Theme = light | dark

record HeaderState =
  currentTimeState :: Date
  isPrayerTime :: bool
  language :: Language
  theme :: Theme

definition timerTick :: "Date \<Rightarrow> Date \<Rightarrow> HeaderState \<Rightarrow> HeaderState" where
  "timerTick now now' st = st\<lparr>currentTimeState := now, isPrayerTime := isDuringPrayerTime now'\<rparr>"

section \<open>lib/utils.ts: the string utilities\<close>

text \<open>
  A JavaScript string is a sequence of UTF-16 code units; \<^verbatim>\<open>length\<close>, the regular
  expressions (no \<^verbatim>\<open>u\<close> flag) and \<^verbatim>\<open>replace\<close> all work on code units.
\<close>

type_synonym jsstring = "16 word list"

text \<open>
  \<^verbatim>\<open>const arabicDigits = [...]\<close>: the ten literals are U+0660 .. U+0669.
\<close>

definition arabicDigits :: "jsstring list" where
  "arabicDigits =
     [[0x660], [0x661], [0x662], [0x663], [0x664], [0x665], [0x666], [0x667], [0x668], [0x669]]"

text \<open>The character class \<^verbatim>\<open>\d\<close>: the ASCII digits.\<close>

definition isDigit :: "16 word \<Rightarrow> bool" where
  "isDigit c = (0x30 \<le> c \<and> c \<le> 0x39)"

text \<open>
  \<^verbatim>\<open>parseInt(d)\<close> of a one-unit string: the digit's value, or NaN (\<open>None\<close>).
\<close>

definition parseInt :: "16 word \<Rightarrow> nat option" where
  "parseInt d = (if isDigit d then Some (unat d - 48) else None)"

text \<open>
  The replacer \<^verbatim>\<open>(d) => arabicDigits[parseInt(d)]\<close>. Indexing an array with NaN or
  past its end gives \<^verbatim>\<open>undefined\<close>, which \<^verbatim>\<open>replace\<close> inserts as the nine
  units of the text "undefined".
\<close>

definition undefinedText :: jsstring where
  "undefinedText = [0x75, 0x6E, 0x64, 0x65, 0x66, 0x69, 0x6E, 0x65, 0x64]"

definition replacer :: "16 word \<Rightarrow> jsstring" where
  "replacer d =
     (case parseInt d of
        None \<Rightarrow> undefinedText
      | Some k \<Rightarrow> (if k < length arabicDigits then arabicDigits ! k else undefinedText))"

text \<open>
  \<^verbatim>\<open>String(num).replace(/\d/g, replacer)\<close>, on the string \<^verbatim>\<open>String(num)\<close> (the
  argument itself when it is a string): every match of the one-unit pattern, left to
  right, is replaced by what the replacer returns; the other units are copied.
\<close>

definition toArabicNumbers :: "jsstring \<Rightarrow> jsstring" where
  "toArabicNumbers num = concat (map (\<lambda>c. if isDigit c then replacer c else [c]) num)"

text \<open>
  The character class of \<^verbatim>\<open>arabicRegex\<close>: the five ranges U+0600..U+06FF,
  U+0750..U+077F, U+08A0..U+08FF, U+FB50..U+FDFF and U+FE70..U+FEFF.
\<close>

definition arabicRegex :: "16 word \<Rightarrow> bool" where
  "arabicRegex c =
     ((0x0600 \<le> c \<and> c \<le> 0x06FF) \<or> (0x0750 \<le> c \<and> c \<le> 0x077F) \<or>
      (0x08A0 \<le> c \<and> c \<le> 0x08FF) \<or> (0xFB50 \<le> c \<and> c \<le> 0xFDFF) \<or>
      (0xFE70 \<le> c \<and> c \<le> 0xFEFF))"

text \<open>\<^verbatim>\<open>arabicRegex.test(text)\<close>: some unit of the text is in the class.\<close>

definition containsArabic :: "jsstring \<Rightarrow> bool" where
  "containsArabic text = list_ex arabicRegex text"

datatype TextDirection = ltr | rtl

definition getTextDirection :: "jsstring \<Rightarrow> TextDirection" where
  "getTextDirection text = (if containsArabic text then rtl else ltr)"

section \<open>The scheduling conflict engine\<close>

text \<open>
  The repository holds no implementation of the engine: the prayer-time check above is
  its only scheduling logic. The definitions of this section follow the contracts of
  sections 3, 4, 6 and 7 of the specification, so that the statements made about the
  engine can be written down next to the code.
\<close>

text \<open>Modelled from the spec: the enumerations of section 3 (no such types in the sources).\<close>

datatype Severity = Block | Warn | AdjustDuration

datatype ObservanceCategory = PrayerWindow | NationalHoliday | NationalityHoliday | RamadanPeriod

datatype EngineError = InvalidWindow | UnresolvableRecurrence | CatalogUnavailable | ProviderTimeout

text \<open>
  Modelled from the spec: TimeWindow \<open>{start, end, zone}\<close> of section 3 (absent from the
  sources). The two timestamps are instants on the reference axis (UTC), so windows of
  different zones compare directly; the zone is the identifier the window was given in.
\<close>

record TimeWindow =
  wstart :: int
  wend :: int
  zone :: string

text \<open>
  Modelled from the spec: window construction (sections 4.1 and 7; absent from the
  sources). A window with \<open>start \<ge> end\<close> or a zone that is not one of the recognised
  identifiers \<open>zones\<close> fails with InvalidWindow.
\<close>

definition mkTimeWindow :: "string list \<Rightarrow> int \<Rightarrow> int \<Rightarrow> string \<Rightarrow> EngineError + TimeWindow" where
  "mkTimeWindow zones s e z =
     (if s \<ge> e \<or> z \<notin> set zones then Inl InvalidWindow
      else Inr \<lparr>wstart = s, wend = e, zone = z\<rparr>)"

text \<open>
  Modelled from the spec: \<open>overlaps\<close> of section 4.1 (absent from the sources), "true
  iff a.start < b.end and b.start < a.end".
\<close>

definition overlaps :: "TimeWindow \<Rightarrow> TimeWindow \<Rightarrow> bool" where
  "overlaps a b = (wstart a < wend b \<and> wstart b < wend a)"

text \<open>Modelled from the spec: \<open>expandWithBuffer\<close> of section 4.1 (absent from the sources).\<close>

definition expandWithBuffer :: "TimeWindow \<Rightarrow> int \<Rightarrow> int \<Rightarrow> TimeWindow" where
  "expandWithBuffer w before after = w\<lparr>wstart := wstart w - before, wend := wend w + after\<rparr>"

text \<open>
  Modelled from the spec: Policy, ObservanceInstance, AttendeeContext and
  ConflictDecision of section 3 (absent from the sources).
\<close>

record Policy =
  severity :: Severity
  bufferBefore :: int
  bufferAfter :: int
  maxDurationOverride :: "int option"

record ObservanceInstance =
  window :: TimeWindow
  category :: ObservanceCategory
  policy :: Policy
  sourceRuleId :: string

record AttendeeContext =
  nationalityTags :: "string set"
  isOrganizer :: bool

datatype Outcome = Allowed | AllowedWithWarning | AdjustedWindow TimeWindow | Blocked

record ConflictDecision =
  decisionWindow :: TimeWindow
  conflicts :: "ObservanceInstance list"
  outcome :: Outcome

text \<open>
  Modelled from the spec: what the Ramadan Policy Adjuster of section 4.4 answers
  (absent from the sources): the window is handed back, or a PolicyViolation carries
  the maximum allowed duration.
\<close>

datatype AdjustResult = WindowOk | PolicyViolation int

text \<open>
  Modelled from the spec: the catalog snapshot as the Conflict Evaluator sees it
  (sections 4.3 and 4.4; absent from the sources): \<open>instancesFor\<close> is rule selection
  composed with expansion, which fails when the snapshot or a provider is not there,
  and \<open>adjust\<close> is the Ramadan adjustment against this snapshot.
\<close>

record Catalog =
  instancesFor :: "AttendeeContext \<Rightarrow> TimeWindow \<Rightarrow> EngineError + ObservanceInstance list"
  adjust :: "TimeWindow \<Rightarrow> AdjustResult"

text \<open>
  Modelled from the spec: the evaluator's configuration (section 4.5, step 1; absent
  from the sources): \<open>None\<close> when trimming is disabled, otherwise how a window is
  trimmed to a maximum duration.
\<close>

record EvaluatorConfig =
  trim :: "(TimeWindow \<Rightarrow> int \<Rightarrow> TimeWindow) option"

text \<open>
  Modelled from the spec: step 1 of \<open>evaluate\<close> (section 4.5; absent from the sources):
  the outcome the evaluation starts from, and the window the later steps check.
\<close>

definition initialOutcome :: "EvaluatorConfig \<Rightarrow> Catalog \<Rightarrow> TimeWindow \<Rightarrow> Outcome" where
  "initialOutcome cfg cat w =
     (case adjust cat w of
        WindowOk \<Rightarrow> Allowed
      | PolicyViolation m \<Rightarrow>
          (case trim cfg of None \<Rightarrow> Blocked | Some t \<Rightarrow> AdjustedWindow (t w m)))"

definition checkedWindow :: "EvaluatorConfig \<Rightarrow> Catalog \<Rightarrow> TimeWindow \<Rightarrow> TimeWindow" where
  "checkedWindow cfg cat w =
     (case initialOutcome cfg cat w of AdjustedWindow w' \<Rightarrow> w' | _ \<Rightarrow> w)"

text \<open>
  Modelled from the spec: step 2 of \<open>evaluate\<close> (absent from the sources): an instance
  conflicts when the window overlaps the instance's window expanded by its buffers.
\<close>

definition conflictsWith :: "TimeWindow \<Rightarrow> ObservanceInstance \<Rightarrow> bool" where
  "conflictsWith w i =
     overlaps w (expandWithBuffer (window i) (bufferBefore (policy i)) (bufferAfter (policy i)))"

text \<open>
  Modelled from the spec: the order of \<open>conflicts\<close> (section 4.5; absent from the
  sources): by window start ascending, ties by severity, Block first.
\<close>

fun severityRank :: "Severity \<Rightarrow> nat" where
  "severityRank Block = 0"
| "severityRank Warn = 1"
| "severityRank AdjustDuration = 2"

definition sortConflicts :: "ObservanceInstance list \<Rightarrow> ObservanceInstance list" where
  "sortConflicts = sort_key (\<lambda>i. (wstart (window i), severityRank (severity (policy i))))"

text \<open>
  Modelled from the spec: steps 3 to 6 of \<open>evaluate\<close> (absent from the sources): Block
  dominates, then Warn, then the outcome of step 1.
\<close>

definition decide :: "Outcome \<Rightarrow> ObservanceInstance list \<Rightarrow> Outcome" where
  "decide initial cs =
     (if list_ex (\<lambda>i. severity (policy i) = Block) cs then Blocked
      else if initial = Blocked then Blocked
      else if list_ex (\<lambda>i. severity (policy i) = Warn) cs then AllowedWithWarning
      else initial)"

text \<open>
  Modelled from the spec: \<open>evaluate\<close> of section 4.5 (absent from the sources).
\<close>

definition evaluate ::
  "EvaluatorConfig \<Rightarrow> TimeWindow \<Rightarrow> AttendeeContext \<Rightarrow> Catalog \<Rightarrow> EngineError + ConflictDecision" where
  "evaluate cfg w attendees cat =
     (let w' = checkedWindow cfg cat w in
      case instancesFor cat attendees w' of
        Inl e \<Rightarrow> Inl e
      | Inr insts \<Rightarrow>
          (let cs = sortConflicts (filter (conflictsWith w') insts) in
           Inr \<lparr>decisionWindow = w, conflicts = cs,
                outcome = decide (initialOutcome cfg cat w) cs\<rparr>))"

text \<open>
  Modelled from the spec: \<open>rescan\<close> of section 4.6 (absent from the sources): one
  evaluation per booking \<open>(id, window, attendees)\<close>, a failure kept as that booking's
  entry.
\<close>

type_synonym Booking = "string \<times> TimeWindow \<times> AttendeeContext"

definition rescan ::
  "EvaluatorConfig \<Rightarrow> Booking list \<Rightarrow> Catalog \<Rightarrow> (string \<times> (EngineError + ConflictDecision)) list" where
  "rescan cfg bookings cat = map (\<lambda>(bid, w, a). (bid, evaluate cfg w a cat)) bookings"

text \<open>
  Modelled from the spec: the check endpoint of section 6 (absent from the sources):
  400 when the window cannot be constructed, 503 when the evaluation fails, 200 with
  the decision otherwise.
\<close>

record CheckRequest =
  reqStart :: int
  reqEnd :: int
  reqZone :: string
  reqAttendees :: AttendeeContext

datatype HttpResponse = Http200 ConflictDecision | Http400 | Http503

definition scheduleCheck ::
  "string list \<Rightarrow> EvaluatorConfig \<Rightarrow> Catalog \<Rightarrow> CheckRequest \<Rightarrow> HttpResponse" where
  "scheduleCheck zones cfg cat req =
     (case mkTimeWindow zones (reqStart req) (reqEnd req) (reqZone req) of
        Inl _ \<Rightarrow> Http400
      | Inr w \<Rightarrow>
          (case evaluate cfg w (reqAttendees req) cat of
             Inl _ \<Rightarrow> Http503
           | Inr d \<Rightarrow> Http200 d))"

section \<open>Concrete inputs\<close>

text \<open>
  A clock reading on a machine set to Dubai time (UTC+4, no daylight saving): the
  instant at which the wall clock shows \<open>h:m\<close> on 2 December 2024, the day of
  \<^verbatim>\<open>mockUAEDate\<close>.
\<close>

definition dubaiClock :: "int \<Rightarrow> int \<Rightarrow> Date" where
  "dubaiClock h m = \<lparr>timeValue = 1733083200000 + (h * 60 + m) * 60000, localTZA = 14400000\<rparr>"

text \<open>\<^verbatim>\<open>export const UAE_TIMEZONE = 'Asia/Dubai'\<close>\<close>

definition UAE_TIMEZONE :: string where
  "UAE_TIMEZONE = ''Asia/Dubai''"

text \<open>
  Modelled from the spec: the scenario of section 8, item 6 (no such fixture in the
  sources), in minutes of the day, Dubai zone: a PrayerWindow instance anchored at
  12:15 whose policy blocks, with 15-minute buffers on both sides, and the proposed
  meeting 12:00-12:10.
\<close>

definition dhuhrInstance :: ObservanceInstance where
  "dhuhrInstance =
     \<lparr>window = \<lparr>wstart = 12 * 60 + 15, wend = 12 * 60 + 15, zone = UAE_TIMEZONE\<rparr>,
      category = PrayerWindow,
      policy = \<lparr>severity = Block, bufferBefore = 15, bufferAfter = 15,
                maxDurationOverride = None\<rparr>,
      sourceRuleId = ''dhuhr''\<rparr>"

definition proposedMeeting :: TimeWindow where
  "proposedMeeting = \<lparr>wstart = 12 * 60, wend = 12 * 60 + 10, zone = UAE_TIMEZONE\<rparr>"

section \<open>Basic facts about the clock reading\<close>

lemma getHours_range: "0 \<le> getHours d \<and> getHours d < 24"
  by (simp add: getHours_def)

lemma getMinutes_range: "0 \<le> getMinutes d \<and> getMinutes d < 60"
  by (simp add: getMinutes_def)

lemma currentTime_range: "0 \<le> currentTime d \<and> currentTime d < 1440"
  using getHours_range [of d] getMinutes_range [of d]
  by (simp add: currentTime_def)

lemma isDuringPrayerTime_unfold:
  "isDuringPrayerTime d =
     (withinBuffer (currentTime d) 315 \<or> withinBuffer (currentTime d) 735 \<or>
      withinBuffer (currentTime d) 930 \<or> withinBuffer (currentTime d) 1125 \<or>
      withinBuffer (currentTime d) 1200)"
  by (simp add: isDuringPrayerTime_def prayerTimes_def)

section \<open>Basic facts about the string utilities\<close>

lemma isDigit_cases:
  assumes "isDigit c"
  shows "c \<in> {0x30, 0x31, 0x32, 0x33, 0x34, 0x35, 0x36, 0x37, 0x38, 0x39}"
proof -
  have "48 \<le> unat c \<and> unat c \<le> 57"
    using assms by (simp add: isDigit_def word_le_nat_alt)
  then have "unat c \<in> {48, 49, 50, 51, 52, 53, 54, 55, 56, 57}"
    by simp arith
  then have "word_of_nat (unat c) \<in>
      (word_of_nat ` {48, 49, 50, 51, 52, 53, 54, 55, 56, 57} :: 16 word set)"
    by (rule imageI)
  then show ?thesis by simp
qed

lemma replacer_digit: "isDigit c \<Longrightarrow> replacer c = [0x660 + (c - 0x30)]"
  using isDigit_cases [of c]
  by (auto simp add: replacer_def parseInt_def arabicDigits_def isDigit_def)

lemma toArabicNumbers_map:
  "toArabicNumbers s = map (\<lambda>c. if isDigit c then 0x660 + (c - 0x30) else c) s"
  by (induction s) (simp_all add: toArabicNumbers_def replacer_digit)

section \<open>Basic facts about the engine model\<close>

lemma set_sortConflicts: "set (sortConflicts xs) = set xs"
  by (simp add: sortConflicts_def)

lemma decide_block:
  "i \<in> set cs \<Longrightarrow> severity (policy i) = Block \<Longrightarrow> decide init cs = Blocked"
  by (auto simp add: decide_def list_ex_iff)

lemma checkedWindow_WindowOk: "adjust cat w = WindowOk \<Longrightarrow> checkedWindow cfg cat w = w"
  by (simp add: checkedWindow_def initialOutcome_def)

lemma dhuhr_conflicts: "conflictsWith proposedMeeting dhuhrInstance"
  by (simp add: conflictsWith_def overlaps_def expandWithBuffer_def dhuhrInstance_def
      proposedMeeting_def)

lemma evaluate_dhuhr:
  assumes "adjust cat proposedMeeting = WindowOk"
    and "instancesFor cat att proposedMeeting = Inr [dhuhrInstance]"
  shows "evaluate cfg proposedMeeting att cat =
           Inr \<lparr>decisionWindow = proposedMeeting, conflicts = [dhuhrInstance], outcome = Blocked\<rparr>"
proof -
  have w: "checkedWindow cfg cat proposedMeeting = proposedMeeting"
    using assms(1) by (rule checkedWindow_WindowOk)
  have i: "initialOutcome cfg cat proposedMeeting = Allowed"
    using assms(1) by (simp add: initialOutcome_def)
  have c: "sortConflicts [dhuhrInstance] = [dhuhrInstance]"
    by (simp add: sortConflicts_def)
  have s: "severity (policy dhuhrInstance) = Block"
    by (simp add: dhuhrInstance_def)
  have d: "decide Allowed [dhuhrInstance] = Blocked"
    by (simp add: decide_def s)
  show ?thesis
    by (simp add: evaluate_def w i assms(2) dhuhr_conflicts c d)
qed

lemma only_dhuhr:
  assumes "12 * 60 \<le> ct" and "ct \<le> 12 * 60 + 10"
  shows "filter (withinBuffer ct) (map snd prayerTimes) = [12 * 60 + 15]"
  using assms by (simp add: prayerTimes_def withinBuffer_def buffer_def)

lemma mkTimeWindow_Inr:
  "mkTimeWindow zones s e z = Inr w \<Longrightarrow>
     w = \<lparr>wstart = s, wend = e, zone = z\<rparr> \<and> s < e \<and> z \<in> set zones"
  by (auto simp add: mkTimeWindow_def split: if_splits)

lemma evaluate_window: "evaluate cfg w att cat = Inr d \<Longrightarrow> decisionWindow d = w"
  by (auto simp add: evaluate_def Let_def split: sum.splits)

section \<open>The claims\<close>

subsection \<open>C1: touching windows and the edges of the buffer\<close>

text \<open>
  Claim C1 says that touching windows do not conflict and that, in particular, a clock
  time exactly at the far edge of the 15-minute buffer is not flagged. The check in
  the code compares with \<^verbatim>\<open><=\<close>, so the edge is flagged: at 12:30 on a Dubai clock
  the distance to the 12:15 anchor is exactly the buffer and the check answers true.
\<close>

theorem buffer_far_edge_is_flagged:
  "currentTime (dubaiClock 12 30) = (12 * 60 + 15) + buffer \<and>
   isDuringPrayerTime (dubaiClock 12 30)"
  by (simp add: isDuringPrayerTime_unfold withinBuffer_def buffer_def
      currentTime_def getHours_def getMinutes_def dubaiClock_def)

text \<open>
  Claim C1, amended: windows that touch (\<open>a.end = b.start\<close>) do not overlap, in either
  order, under the half-open \<open>overlaps\<close>; the prayer-time check of the code is closed
  at both edges of the buffer: a clock time exactly 15 minutes from an anchor is
  flagged, and one exactly 16 minutes from an anchor is not.
\<close>

theorem touching_windows_and_buffer_edges:
  "(wend a = wstart b \<longrightarrow> \<not> overlaps a b \<and> \<not> overlaps b a) \<and>
   (\<forall>p \<in> set (map snd prayerTimes).
      (\<bar>currentTime now - p\<bar> = buffer \<longrightarrow> isDuringPrayerTime now) \<and>
      (\<bar>currentTime now - p\<bar> = buffer + 1 \<longrightarrow> \<not> isDuringPrayerTime now))"
proof -
  have t: "wend a = wstart b \<longrightarrow> \<not> overlaps a b \<and> \<not> overlaps b a"
    by (simp add: overlaps_def)
  have e: "\<forall>p \<in> set (map snd prayerTimes).
      (\<bar>currentTime now - p\<bar> = buffer \<longrightarrow> isDuringPrayerTime now) \<and>
      (\<bar>currentTime now - p\<bar> = buffer + 1 \<longrightarrow> \<not> isDuringPrayerTime now)"
    by (simp add: isDuringPrayerTime_unfold withinBuffer_def buffer_def prayerTimes_def) arith
  from t e show ?thesis by (rule conjI)
qed

theorem touching_windows_and_buffer_edges_witness:
  "wend proposedMeeting = wstart \<lparr>wstart = 730, wend = 760, zone = UAE_TIMEZONE\<rparr> \<and>
   \<not> overlaps proposedMeeting \<lparr>wstart = 730, wend = 760, zone = UAE_TIMEZONE\<rparr> \<and>
   \<bar>currentTime (dubaiClock 12 0) - (12 * 60 + 15)\<bar> = buffer \<and>
   isDuringPrayerTime (dubaiClock 12 0) \<and>
   \<bar>currentTime (dubaiClock 12 31) - (12 * 60 + 15)\<bar> = buffer + 1 \<and>
   \<not> isDuringPrayerTime (dubaiClock 12 31)"
proof -
  let ?b = "\<lparr>wstart = 730, wend = 760, zone = UAE_TIMEZONE\<rparr>"
  have c0: "currentTime (dubaiClock 12 0) = 720"
    by (simp add: currentTime_def getHours_def getMinutes_def dubaiClock_def)
  have c1: "currentTime (dubaiClock 12 31) = 751"
    by (simp add: currentTime_def getHours_def getMinutes_def dubaiClock_def)
  have m: "(735::int) \<in> set (map snd prayerTimes)"
    by (simp add: prayerTimes_def)
  have w: "wend proposedMeeting = wstart ?b"
    by (simp add: proposedMeeting_def)
  have n: "\<not> overlaps proposedMeeting ?b"
    using touching_windows_and_buffer_edges [of proposedMeeting ?b "dubaiClock 12 0"] w
    by blast
  have f0: "isDuringPrayerTime (dubaiClock 12 0)"
    using touching_windows_and_buffer_edges [of proposedMeeting ?b "dubaiClock 12 0"] m c0
    by (auto simp add: buffer_def)
  have f1: "\<not> isDuringPrayerTime (dubaiClock 12 31)"
    using touching_windows_and_buffer_edges [of proposedMeeting ?b "dubaiClock 12 31"] m c1
    by (auto simp add: buffer_def)
  show ?thesis
    using w n f0 f1 c0 c1 by (simp add: buffer_def)
qed

subsection \<open>C2: the global clock\<close>

text \<open>
  Claim C2 says that no component reads a global clock, so that two runs with the same
  explicit inputs agree whenever they execute. \<^verbatim>\<open>isDuringPrayerTime()\<close> has no
  explicit input and reads \<^verbatim>\<open>new Date()\<close>: run at 12:15 and at 10:00 on the same
  Dubai clock it answers true and false.
\<close>

theorem isDuringPrayerTime_depends_on_clock:
  "isDuringPrayerTime (dubaiClock 12 15) \<and> \<not> isDuringPrayerTime (dubaiClock 10 0)"
  by (simp add: isDuringPrayerTime_unfold withinBuffer_def buffer_def
      currentTime_def getHours_def getMinutes_def dubaiClock_def)

text \<open>
  Claim C2, amended: the prayer-time check reads the global clock, and its result is a
  function of the clock reading alone, namely of the local hour and minute the reading
  shows: two runs (of the check, and of the header's timer callback that stores its
  answer) agree whenever their readings show the same local hour and minute.
\<close>

theorem isDuringPrayerTime_clock_reading_only:
  assumes "getHours d1 = getHours d2" and "getMinutes d1 = getMinutes d2"
  shows "isDuringPrayerTime d1 = isDuringPrayerTime d2 \<and>
         isPrayerTime (timerTick n1 d1 st1) = isPrayerTime (timerTick n2 d2 st2)"
  using assms by (simp add: isDuringPrayerTime_def currentTime_def timerTick_def)

theorem isDuringPrayerTime_clock_reading_only_witness:
  "getHours (dubaiClock 12 15) = getHours \<lparr>timeValue = 44130500, localTZA = 0\<rparr> \<and>
   getMinutes (dubaiClock 12 15) = getMinutes \<lparr>timeValue = 44130500, localTZA = 0\<rparr> \<and>
   timeValue (dubaiClock 12 15) \<noteq> timeValue \<lparr>timeValue = 44130500, localTZA = 0\<rparr> \<and>
   isDuringPrayerTime (dubaiClock 12 15) =
     isDuringPrayerTime \<lparr>timeValue = 44130500, localTZA = 0\<rparr>"
proof -
  have h: "getHours (dubaiClock 12 15) = getHours \<lparr>timeValue = 44130500, localTZA = 0\<rparr>"
    by (simp add: getHours_def dubaiClock_def)
  have m: "getMinutes (dubaiClock 12 15) = getMinutes \<lparr>timeValue = 44130500, localTZA = 0\<rparr>"
    by (simp add: getMinutes_def dubaiClock_def)
  have t: "timeValue (dubaiClock 12 15) \<noteq> timeValue \<lparr>timeValue = 44130500, localTZA = 0\<rparr>"
    by (simp add: dubaiClock_def)
  from isDuringPrayerTime_clock_reading_only [OF h m] h m t show ?thesis by blast
qed

subsection \<open>C3: the 12:15 scenario\<close>

text \<open>
  Claim C3: for a PrayerWindow anchored at 12:15 with a 15-minute buffer on both sides
  and a blocking policy, the proposed meeting 12:00-12:10 overlaps the buffered window
  \<open>[12:00, 12:30)\<close> and the decision is Blocked with exactly one conflict entry;
  in the code, every clock time from 12:00 to 12:10 is flagged, and exactly one anchor
  (12:15) is the one in conflict.
\<close>

theorem dhuhr_scenario_blocked:
  assumes "adjust cat proposedMeeting = WindowOk"
    and "instancesFor cat att proposedMeeting = Inr [dhuhrInstance]"
  shows "expandWithBuffer (window dhuhrInstance) 15 15 =
           \<lparr>wstart = 12 * 60, wend = 12 * 60 + 30, zone = UAE_TIMEZONE\<rparr> \<and>
         overlaps proposedMeeting (expandWithBuffer (window dhuhrInstance) 15 15) \<and>
         (\<exists>d. evaluate cfg proposedMeeting att cat = Inr d \<and> outcome d = Blocked \<and>
              conflicts d = [dhuhrInstance] \<and> length (conflicts d) = 1) \<and>
         (12 * 60 \<le> currentTime now \<and> currentTime now \<le> 12 * 60 + 10 \<longrightarrow>
            isDuringPrayerTime now \<and>
            length (filter (withinBuffer (currentTime now)) (map snd prayerTimes)) = 1)"
proof -
  have a: "expandWithBuffer (window dhuhrInstance) 15 15 =
           \<lparr>wstart = 12 * 60, wend = 12 * 60 + 30, zone = UAE_TIMEZONE\<rparr>"
    by (simp add: expandWithBuffer_def dhuhrInstance_def)
  have b: "overlaps proposedMeeting (expandWithBuffer (window dhuhrInstance) 15 15)"
    by (simp add: a) (simp add: overlaps_def proposedMeeting_def)
  have e: "evaluate cfg proposedMeeting att cat =
             Inr \<lparr>decisionWindow = proposedMeeting, conflicts = [dhuhrInstance],
                  outcome = Blocked\<rparr>"
    using assms by (rule evaluate_dhuhr)
  have f: "12 * 60 \<le> currentTime now \<and> currentTime now \<le> 12 * 60 + 10 \<longrightarrow>
            isDuringPrayerTime now \<and>
            length (filter (withinBuffer (currentTime now)) (map snd prayerTimes)) = 1"
    by (simp add: isDuringPrayerTime_unfold only_dhuhr) (simp add: withinBuffer_def buffer_def)
  from a b e f show ?thesis by simp
qed

theorem dhuhr_scenario_blocked_witness:
  "(\<exists>d. evaluate \<lparr>trim = None\<rparr> proposedMeeting
          \<lparr>nationalityTags = {''AE''}, isOrganizer = True\<rparr>
          \<lparr>instancesFor = (\<lambda>a w. Inr [dhuhrInstance]), adjust = (\<lambda>w. WindowOk)\<rparr> = Inr d \<and>
        outcome d = Blocked \<and> length (conflicts d) = 1) \<and>
   12 * 60 \<le> currentTime (dubaiClock 12 5) \<and> currentTime (dubaiClock 12 5) \<le> 12 * 60 + 10 \<and>
   isDuringPrayerTime (dubaiClock 12 5)"
proof -
  let ?cat = "\<lparr>instancesFor = (\<lambda>a w. Inr [dhuhrInstance]), adjust = (\<lambda>w. WindowOk)\<rparr>"
  let ?att = "\<lparr>nationalityTags = {''AE''}, isOrganizer = True\<rparr>"
  have c: "currentTime (dubaiClock 12 5) = 725"
    by (simp add: currentTime_def getHours_def getMinutes_def dubaiClock_def)
  have h1: "adjust ?cat proposedMeeting = WindowOk"
    by simp
  have h2: "instancesFor ?cat ?att proposedMeeting = Inr [dhuhrInstance]"
    by simp
  show ?thesis
    using dhuhr_scenario_blocked [OF h1 h2, of "\<lparr>trim = None\<rparr>" "dubaiClock 12 5"] c
    by auto
qed

subsection \<open>C4: symmetry\<close>

text \<open>
  Claim C4: the overlap test is symmetric, \<open>overlaps a b = overlaps b a\<close> (for all
  windows, the non-degenerate ones among them), and the distance comparison of the
  prayer-time check gives the same answer when the clock time and the anchor are
  exchanged.
\<close>

theorem overlap_test_symmetric:
  "overlaps a b = overlaps b a \<and> withinBuffer ct p = withinBuffer p ct"
proof
  show "overlaps a b = overlaps b a"
    unfolding overlaps_def by (rule conj_commute)
  have "\<bar>ct - p\<bar> = \<bar>p - ct\<bar>"
    by (rule abs_minus_commute)
  then show "withinBuffer ct p = withinBuffer p ct"
    by (simp only: withinBuffer_def)
qed

theorem overlap_test_symmetric_witness:
  "overlaps \<lparr>wstart = 720, wend = 750, zone = UAE_TIMEZONE\<rparr> proposedMeeting \<and>
   overlaps proposedMeeting \<lparr>wstart = 720, wend = 750, zone = UAE_TIMEZONE\<rparr> \<and>
   withinBuffer 735 720 \<and> withinBuffer 720 735 \<and>
   withinBuffer 735 719 = withinBuffer 719 735"
proof -
  let ?b = "\<lparr>wstart = 720, wend = 750, zone = UAE_TIMEZONE\<rparr>"
  have o: "overlaps proposedMeeting ?b"
    by (simp add: overlaps_def proposedMeeting_def)
  have w: "withinBuffer 720 735"
    by (simp add: withinBuffer_def buffer_def)
  show ?thesis
    using overlap_test_symmetric [of proposedMeeting ?b 720 735]
      overlap_test_symmetric [of proposedMeeting ?b 735 719] o w
    by simp
qed

subsection \<open>C5: Block dominates\<close>

text \<open>
  Claim C5 (block dominance): when the catalog answers with instances of which at
  least one has Block severity and overlaps, with its buffers, the window the
  evaluation checks (the proposed window, or the trimmed one after a Ramadan
  adjustment), the evaluation returns a decision and its outcome is Blocked, whatever
  other instances overlap.
\<close>

theorem block_dominance:
  assumes "instancesFor cat att (checkedWindow cfg cat w) = Inr insts"
    and "i \<in> set insts"
    and "severity (policy i) = Block"
    and "conflictsWith (checkedWindow cfg cat w) i"
  shows "\<exists>d. evaluate cfg w att cat = Inr d \<and> outcome d = Blocked"
proof -
  let ?w = "checkedWindow cfg cat w"
  let ?cs = "sortConflicts (filter (conflictsWith ?w) insts)"
  have "i \<in> set ?cs"
    using assms(2,4) by (simp add: set_sortConflicts)
  then have "decide (initialOutcome cfg cat w) ?cs = Blocked"
    using assms(3) by (rule decide_block)
  then show ?thesis
    using assms(1) by (simp add: evaluate_def Let_def)
qed

theorem block_dominance_witness:
  "conflictsWith proposedMeeting
     (dhuhrInstance\<lparr>category := NationalHoliday,
        policy := (policy dhuhrInstance)\<lparr>severity := Warn\<rparr>\<rparr>) \<and>
   conflictsWith proposedMeeting dhuhrInstance \<and>
   (\<exists>d. evaluate \<lparr>trim = None\<rparr> proposedMeeting
          \<lparr>nationalityTags = {''AE''}, isOrganizer = True\<rparr>
          \<lparr>instancesFor = (\<lambda>a w. Inr
              [dhuhrInstance\<lparr>category := NationalHoliday,
                 policy := (policy dhuhrInstance)\<lparr>severity := Warn\<rparr>\<rparr>,
               dhuhrInstance]),
            adjust = (\<lambda>w. WindowOk)\<rparr> = Inr d \<and>
        outcome d = Blocked)"
proof -
  let ?warn = "dhuhrInstance\<lparr>category := NationalHoliday,
      policy := (policy dhuhrInstance)\<lparr>severity := Warn\<rparr>\<rparr>"
  let ?cat = "\<lparr>instancesFor = (\<lambda>a w. Inr [?warn, dhuhrInstance]), adjust = (\<lambda>w. WindowOk)\<rparr>"
  let ?cfg = "\<lparr>trim = None\<rparr>"
  let ?att = "\<lparr>nationalityTags = {''AE''}, isOrganizer = True\<rparr>"
  have w: "checkedWindow ?cfg ?cat proposedMeeting = proposedMeeting"
    by (simp add: checkedWindow_def initialOutcome_def)
  have cw: "conflictsWith proposedMeeting ?warn"
    by (simp add: conflictsWith_def overlaps_def expandWithBuffer_def dhuhrInstance_def
        proposedMeeting_def)
  have h1: "instancesFor ?cat ?att (checkedWindow ?cfg ?cat proposedMeeting) =
      Inr [?warn, dhuhrInstance]"
    by simp
  have h2: "dhuhrInstance \<in> set [?warn, dhuhrInstance]"
    by simp
  have h3: "severity (policy dhuhrInstance) = Block"
    by (simp add: dhuhrInstance_def)
  have h4: "conflictsWith (checkedWindow ?cfg ?cat proposedMeeting) dhuhrInstance"
    by (simp only: w dhuhr_conflicts)
  from block_dominance [OF h1 h2 h3 h4] cw dhuhr_conflicts show ?thesis
    by blast
qed

subsection \<open>C6: malformed windows\<close>

text \<open>
  Claim C6: a requested window with \<open>start \<ge> end\<close> or an unrecognised zone fails at
  construction with InvalidWindow, and the check endpoint answers 400 whatever the
  configuration and the catalog are (the evaluation is not consulted); every window
  that construction yields, and so every window a returned decision is about, has
  \<open>start < end\<close> and a recognised zone.
\<close>

theorem invalid_window_rejected:
  "(s \<ge> e \<or> z \<notin> set zones \<longrightarrow>
      mkTimeWindow zones s e z = Inl InvalidWindow \<and>
      scheduleCheck zones cfg cat
        \<lparr>reqStart = s, reqEnd = e, reqZone = z, reqAttendees = att\<rparr> = Http400) \<and>
   (mkTimeWindow zones s e z = Inr w \<longrightarrow> wstart w < wend w \<and> zone w \<in> set zones) \<and>
   (scheduleCheck zones cfg cat
      \<lparr>reqStart = s, reqEnd = e, reqZone = z, reqAttendees = att\<rparr> = Http200 d \<longrightarrow>
      wstart (decisionWindow d) < wend (decisionWindow d) \<and>
      zone (decisionWindow d) \<in> set zones)"
proof -
  let ?req = "\<lparr>reqStart = s, reqEnd = e, reqZone = z, reqAttendees = att\<rparr>"
  have a: "s \<ge> e \<or> z \<notin> set zones \<longrightarrow>
      mkTimeWindow zones s e z = Inl InvalidWindow \<and> scheduleCheck zones cfg cat ?req = Http400"
    by (auto simp add: mkTimeWindow_def scheduleCheck_def)
  have b: "mkTimeWindow zones s e z = Inr w \<longrightarrow> wstart w < wend w \<and> zone w \<in> set zones"
    using mkTimeWindow_Inr [of zones s e z w] by auto
  have c: "scheduleCheck zones cfg cat ?req = Http200 d \<longrightarrow>
      wstart (decisionWindow d) < wend (decisionWindow d) \<and>
      zone (decisionWindow d) \<in> set zones"
    by (auto simp add: scheduleCheck_def split: sum.splits
        dest!: mkTimeWindow_Inr evaluate_window)
  from a b c show ?thesis by blast
qed

theorem invalid_window_rejected_witness:
  "(10::int) \<ge> 10 \<and>
   mkTimeWindow [UAE_TIMEZONE] 10 10 UAE_TIMEZONE = Inl InvalidWindow \<and>
   scheduleCheck [UAE_TIMEZONE] \<lparr>trim = None\<rparr>
     \<lparr>instancesFor = (\<lambda>a w. Inr [dhuhrInstance]), adjust = (\<lambda>w. WindowOk)\<rparr>
     \<lparr>reqStart = 10, reqEnd = 10, reqZone = UAE_TIMEZONE,
      reqAttendees = \<lparr>nationalityTags = {''AE''}, isOrganizer = True\<rparr>\<rparr> = Http400 \<and>
   ''Mars/Olympus'' \<notin> set [UAE_TIMEZONE] \<and>
   mkTimeWindow [UAE_TIMEZONE] 10 20 ''Mars/Olympus'' = Inl InvalidWindow \<and>
   mkTimeWindow [UAE_TIMEZONE] 10 20 UAE_TIMEZONE =
     Inr \<lparr>wstart = 10, wend = 20, zone = UAE_TIMEZONE\<rparr>"
proof -
  let ?cfg = "\<lparr>trim = None\<rparr>"
  let ?cat = "\<lparr>instancesFor = (\<lambda>a w. Inr [dhuhrInstance]), adjust = (\<lambda>w. WindowOk)\<rparr>"
  let ?att = "\<lparr>nationalityTags = {''AE''}, isOrganizer = True\<rparr>"
  have z: "''Mars/Olympus'' \<notin> set [UAE_TIMEZONE]"
    by (simp add: UAE_TIMEZONE_def)
  have a: "mkTimeWindow [UAE_TIMEZONE] 10 10 UAE_TIMEZONE = Inl InvalidWindow \<and>
      scheduleCheck [UAE_TIMEZONE] ?cfg ?cat
        \<lparr>reqStart = 10, reqEnd = 10, reqZone = UAE_TIMEZONE, reqAttendees = ?att\<rparr> = Http400"
    using invalid_window_rejected [of 10 10 UAE_TIMEZONE "[UAE_TIMEZONE]" ?cfg ?cat ?att]
    by simp
  have b: "mkTimeWindow [UAE_TIMEZONE] 10 20 ''Mars/Olympus'' = Inl InvalidWindow"
    using invalid_window_rejected [of 20 10 "''Mars/Olympus''" "[UAE_TIMEZONE]" ?cfg ?cat ?att] z
    by simp
  have c: "mkTimeWindow [UAE_TIMEZONE] 10 20 UAE_TIMEZONE =
      Inr \<lparr>wstart = 10, wend = 20, zone = UAE_TIMEZONE\<rparr>"
    by (simp add: mkTimeWindow_def)
  from a b c z show ?thesis by simp
qed

subsection \<open>C7: batch rescan\<close>

text \<open>
  Claim C7: \<open>rescan\<close> returns exactly one entry per booking, in the caller's order;
  entry \<open>k\<close> is the id of booking \<open>k\<close> with what evaluating that booking alone gives,
  an error included (an \<open>Inl\<close> entry, distinguishable from a decision), so a booking
  that fails leaves the entries of the others as they are computed without it: two
  batches that agree at a position have the same entry there.
\<close>

theorem rescan_order_and_partial_failure:
  "length (rescan cfg bs cat) = length bs \<and>
   map fst (rescan cfg bs cat) = map fst bs \<and>
   (\<forall>k < length bs. rescan cfg bs cat ! k =
      (fst (bs ! k), evaluate cfg (fst (snd (bs ! k))) (snd (snd (bs ! k))) cat)) \<and>
   (\<forall>k. k < length bs \<and> k < length bs' \<and> bs ! k = bs' ! k \<longrightarrow>
      rescan cfg bs cat ! k = rescan cfg bs' cat ! k)"
proof -
  have n: "\<And>xs k. k < length xs \<Longrightarrow> rescan cfg xs cat ! k =
      (fst (xs ! k), evaluate cfg (fst (snd (xs ! k))) (snd (snd (xs ! k))) cat)"
    by (simp add: rescan_def split_beta)
  have a: "length (rescan cfg bs cat) = length bs"
    by (simp add: rescan_def)
  have b: "map fst (rescan cfg bs cat) = map fst bs"
    by (simp add: rescan_def split_beta comp_def)
  have c: "\<forall>k < length bs. rescan cfg bs cat ! k =
      (fst (bs ! k), evaluate cfg (fst (snd (bs ! k))) (snd (snd (bs ! k))) cat)"
    using n by blast
  have d: "\<forall>k. k < length bs \<and> k < length bs' \<and> bs ! k = bs' ! k \<longrightarrow>
      rescan cfg bs cat ! k = rescan cfg bs' cat ! k"
    using n by simp
  from a b c d show ?thesis by blast
qed

theorem rescan_order_and_partial_failure_witness:
  "length (rescan \<lparr>trim = None\<rparr>
     [(''b1'', proposedMeeting, \<lparr>nationalityTags = {''AE''}, isOrganizer = True\<rparr>),
      (''b2'', \<lparr>wstart = 37, wend = 38, zone = UAE_TIMEZONE\<rparr>,
         \<lparr>nationalityTags = {''IN''}, isOrganizer = False\<rparr>),
      (''b3'', \<lparr>wstart = 900, wend = 910, zone = UAE_TIMEZONE\<rparr>,
         \<lparr>nationalityTags = {}, isOrganizer = False\<rparr>)]
     \<lparr>instancesFor = (\<lambda>a w. if wstart w = 37 then Inl UnresolvableRecurrence
                              else Inr [dhuhrInstance]),
      adjust = (\<lambda>w. WindowOk)\<rparr>) = 3 \<and>
   rescan \<lparr>trim = None\<rparr>
     [(''b1'', proposedMeeting, \<lparr>nationalityTags = {''AE''}, isOrganizer = True\<rparr>),
      (''b2'', \<lparr>wstart = 37, wend = 38, zone = UAE_TIMEZONE\<rparr>,
         \<lparr>nationalityTags = {''IN''}, isOrganizer = False\<rparr>),
      (''b3'', \<lparr>wstart = 900, wend = 910, zone = UAE_TIMEZONE\<rparr>,
         \<lparr>nationalityTags = {}, isOrganizer = False\<rparr>)]
     \<lparr>instancesFor = (\<lambda>a w. if wstart w = 37 then Inl UnresolvableRecurrence
                              else Inr [dhuhrInstance]),
      adjust = (\<lambda>w. WindowOk)\<rparr> ! 1 = (''b2'', Inl UnresolvableRecurrence) \<and>
   rescan \<lparr>trim = None\<rparr>
     [(''b1'', proposedMeeting, \<lparr>nationalityTags = {''AE''}, isOrganizer = True\<rparr>),
      (''b2'', \<lparr>wstart = 37, wend = 38, zone = UAE_TIMEZONE\<rparr>,
         \<lparr>nationalityTags = {''IN''}, isOrganizer = False\<rparr>),
      (''b3'', \<lparr>wstart = 900, wend = 910, zone = UAE_TIMEZONE\<rparr>,
         \<lparr>nationalityTags = {}, isOrganizer = False\<rparr>)]
     \<lparr>instancesFor = (\<lambda>a w. if wstart w = 37 then Inl UnresolvableRecurrence
                              else Inr [dhuhrInstance]),
      adjust = (\<lambda>w. WindowOk)\<rparr> ! 2 =
     (''b3'', Inr \<lparr>decisionWindow = \<lparr>wstart = 900, wend = 910, zone = UAE_TIMEZONE\<rparr>,
                  conflicts = [], outcome = Allowed\<rparr>)"
proof -
  let ?cfg = "\<lparr>trim = None\<rparr>"
  let ?cat = "\<lparr>instancesFor = (\<lambda>a w. if wstart w = 37 then Inl UnresolvableRecurrence
                              else Inr [dhuhrInstance]),
      adjust = (\<lambda>w. WindowOk)\<rparr>"
  let ?a1 = "\<lparr>nationalityTags = {''AE''}, isOrganizer = True\<rparr>"
  let ?a2 = "\<lparr>nationalityTags = {''IN''}, isOrganizer = False\<rparr>"
  let ?a3 = "\<lparr>nationalityTags = {}::string set, isOrganizer = False\<rparr>"
  let ?w2 = "\<lparr>wstart = 37, wend = 38, zone = UAE_TIMEZONE\<rparr>"
  let ?w3 = "\<lparr>wstart = 900, wend = 910, zone = UAE_TIMEZONE\<rparr>"
  let ?bs = "[(''b1'', proposedMeeting, ?a1), (''b2'', ?w2, ?a2), (''b3'', ?w3, ?a3)]"
  have e2: "evaluate ?cfg ?w2 ?a2 ?cat = Inl UnresolvableRecurrence"
    by (simp add: evaluate_def checkedWindow_def initialOutcome_def)
  have e3: "evaluate ?cfg ?w3 ?a3 ?cat =
      Inr \<lparr>decisionWindow = ?w3, conflicts = [], outcome = Allowed\<rparr>"
    by (simp add: evaluate_def checkedWindow_def initialOutcome_def conflictsWith_def
        overlaps_def expandWithBuffer_def dhuhrInstance_def sortConflicts_def decide_def)
  have l: "length (rescan ?cfg ?bs ?cat) = 3"
    using rescan_order_and_partial_failure [of ?cfg ?bs ?cat] by simp
  have k: "\<forall>k < 3. rescan ?cfg ?bs ?cat ! k =
      (fst (?bs ! k), evaluate ?cfg (fst (snd (?bs ! k))) (snd (snd (?bs ! k))) ?cat)"
    using rescan_order_and_partial_failure [of ?cfg ?bs ?cat] by simp
  have "rescan ?cfg ?bs ?cat ! 1 =
      (fst (?bs ! 1), evaluate ?cfg (fst (snd (?bs ! 1))) (snd (snd (?bs ! 1))) ?cat)"
    using k by simp
  then have r1: "rescan ?cfg ?bs ?cat ! 1 = (''b2'', Inl UnresolvableRecurrence)"
    by (simp add: e2)
  have "rescan ?cfg ?bs ?cat ! 2 =
      (fst (?bs ! 2), evaluate ?cfg (fst (snd (?bs ! 2))) (snd (snd (?bs ! 2))) ?cat)"
    using k by simp
  then have r2: "rescan ?cfg ?bs ?cat ! 2 =
      (''b3'', Inr \<lparr>decisionWindow = ?w3, conflicts = [], outcome = Allowed\<rparr>)"
    by (simp add: e3)
  from l r1 r2 show ?thesis by blast
qed

subsection \<open>C8: the five anchors\<close>

text \<open>
  Claim C8: \<^verbatim>\<open>isDuringPrayerTime\<close> answers true exactly when the clock's minutes of
  the day are within 15 minutes, inclusive, of one of the anchors 5:15, 12:15, 15:30,
  18:45 and 20:00; the sunrise entry 06:35 of the exported table is not among the
  anchors, and no time within 15 minutes of it is flagged.
\<close>

theorem isDuringPrayerTime_iff_anchors:
  "(isDuringPrayerTime now \<longleftrightarrow>
      (\<exists>p \<in> {5 * 60 + 15, 12 * 60 + 15, 15 * 60 + 30, 18 * 60 + 45, 20 * 60}.
         \<bar>currentTime now - p\<bar> \<le> 15)) \<and>
   (\<bar>currentTime now - (6 * 60 + 35)\<bar> \<le> 15 \<longrightarrow> \<not> isDuringPrayerTime now) \<and>
   map_of mockPrayerTimes ''sunrise'' = Some ''06:35'' \<and>
   map_of prayerTimes ''sunrise'' = None"
proof -
  have a: "isDuringPrayerTime now \<longleftrightarrow>
      (\<exists>p \<in> {5 * 60 + 15, 12 * 60 + 15, 15 * 60 + 30, 18 * 60 + 45, 20 * 60}.
         \<bar>currentTime now - p\<bar> \<le> 15)"
    by (simp add: isDuringPrayerTime_unfold withinBuffer_def buffer_def)
  have b: "\<bar>currentTime now - (6 * 60 + 35)\<bar> \<le> 15 \<longrightarrow> \<not> isDuringPrayerTime now"
    by (simp add: isDuringPrayerTime_unfold withinBuffer_def buffer_def) arith
  have c: "map_of mockPrayerTimes ''sunrise'' = Some ''06:35''"
    by (simp add: mockPrayerTimes_def)
  have d: "map_of prayerTimes ''sunrise'' = None"
    by (simp add: prayerTimes_def)
  from a b c d show ?thesis by blast
qed

theorem isDuringPrayerTime_iff_anchors_witness:
  "\<bar>currentTime (dubaiClock 6 35) - (6 * 60 + 35)\<bar> \<le> 15 \<and>
   \<not> isDuringPrayerTime (dubaiClock 6 35) \<and>
   \<bar>currentTime (dubaiClock 5 30) - (5 * 60 + 15)\<bar> \<le> 15 \<and>
   isDuringPrayerTime (dubaiClock 5 30)"
proof -
  have c1: "currentTime (dubaiClock 6 35) = 395"
    by (simp add: currentTime_def getHours_def getMinutes_def dubaiClock_def)
  have c2: "currentTime (dubaiClock 5 30) = 330"
    by (simp add: currentTime_def getHours_def getMinutes_def dubaiClock_def)
  show ?thesis
    using isDuringPrayerTime_iff_anchors [of "dubaiClock 6 35"]
      isDuringPrayerTime_iff_anchors [of "dubaiClock 5 30"] c1 c2
    by simp
qed

subsection \<open>C9: Arabic-Indic digits\<close>

text \<open>
  Claim C9: \<^verbatim>\<open>toArabicNumbers\<close> keeps the length of its input string; at every
  position an ASCII digit is replaced by the Arabic-Indic digit of the same value
  (U+0660 plus the value), and any other code unit is left as it is.
\<close>

theorem toArabicNumbers_char_map:
  "length (toArabicNumbers s) = length s \<and>
   (\<forall>i < length s.
      (isDigit (s ! i) \<longrightarrow> toArabicNumbers s ! i = 0x660 + (s ! i - 0x30)) \<and>
      (\<not> isDigit (s ! i) \<longrightarrow> toArabicNumbers s ! i = s ! i))"
  by (simp add: toArabicNumbers_map)

theorem toArabicNumbers_char_map_witness:
  "isDigit ([0x31, 0x32, 0x3A, 0x30, 0x35] ! 0) \<and>
   toArabicNumbers [0x31, 0x32, 0x3A, 0x30, 0x35] ! 0 = 0x661 \<and>
   \<not> isDigit ([0x31, 0x32, 0x3A, 0x30, 0x35] ! 2) \<and>
   toArabicNumbers [0x31, 0x32, 0x3A, 0x30, 0x35] ! 2 = 0x3A \<and>
   length (toArabicNumbers [0x31, 0x32, 0x3A, 0x30, 0x35]) = 5"
proof -
  let ?s = "[0x31, 0x32, 0x3A, 0x30, 0x35] :: jsstring"
  have d0: "isDigit (?s ! 0)"
    by (simp add: isDigit_def)
  have d2: "\<not> isDigit (?s ! 2)"
    by (simp add: isDigit_def)
  have a: "\<forall>i < 5. (isDigit (?s ! i) \<longrightarrow> toArabicNumbers ?s ! i = 0x660 + (?s ! i - 0x30)) \<and>
      (\<not> isDigit (?s ! i) \<longrightarrow> toArabicNumbers ?s ! i = ?s ! i)"
    using toArabicNumbers_char_map [of ?s] by simp
  have l: "length (toArabicNumbers ?s) = 5"
    using toArabicNumbers_char_map [of ?s] by simp
  have r0: "toArabicNumbers ?s ! 0 = 0x661"
    using a d0 by fastforce
  have r2: "toArabicNumbers ?s ! 2 = 0x3A"
    using a d2 by fastforce
  from d0 r0 d2 r2 l show ?thesis by blast
qed

subsection \<open>C10: text direction\<close>

text \<open>
  Claim C10: \<^verbatim>\<open>getTextDirection\<close> returns \<open>rtl\<close> exactly when
  \<^verbatim>\<open>containsArabic\<close> is true, which is exactly when some code unit of the text lies
  in the Arabic ranges, and returns \<open>ltr\<close> otherwise.
\<close>

theorem getTextDirection_iff_containsArabic:
  "(getTextDirection t = rtl \<longleftrightarrow> containsArabic t) \<and>
   (getTextDirection t = ltr \<longleftrightarrow> \<not> containsArabic t) \<and>
   (containsArabic t \<longleftrightarrow> (\<exists>c \<in> set t. arabicRegex c))"
  by (simp add: getTextDirection_def containsArabic_def list_ex_iff)

theorem getTextDirection_iff_containsArabic_witness:
  "containsArabic [0x62F, 0x628, 0x64A] \<and> getTextDirection [0x62F, 0x628, 0x64A] = rtl \<and>
   \<not> containsArabic [0x44, 0x75, 0x62, 0x61, 0x69] \<and>
   getTextDirection [0x44, 0x75, 0x62, 0x61, 0x69] = ltr"
proof -
  have a: "containsArabic [0x62F, 0x628, 0x64A]"
    by (simp add: containsArabic_def arabicRegex_def)
  have b: "\<not> containsArabic [0x44, 0x75, 0x62, 0x61, 0x69]"
    by (simp add: containsArabic_def arabicRegex_def)
  show ?thesis
    using getTextDirection_iff_containsArabic [of "[0x62F, 0x628, 0x64A]"]
      getTextDirection_iff_containsArabic [of "[0x44, 0x75, 0x62, 0x61, 0x69]"] a b
    by blast
qed

end
